theory Spec2Isabelle
  imports Main
begin

section \<open>JavaScript values\<close>

text \<open>
  The values that reach \<^verbatim>\<open>cloudSync.js\<close> from its callers: event objects built by
  \<^verbatim>\<open>server.js\<close> or parsed from a request body, and the bodies of the remote endpoint's
  responses. Numbers are restricted to integers (so \<^verbatim>\<open>NaN\<close> is not a value here);
  a BigInt is kept because it is the value \<^verbatim>\<open>JSON.stringify\<close> refuses.
\<close>

datatype jsval =
    JUndefined
  | JNull
  | JBool bool
  | JNum int
  | JBigInt int
  | JStr string
  | JArr "jsval list"
  | JObj "(string \<times> jsval) list"

datatype js_error = TypeError string | Error string

fun message :: "js_error \<Rightarrow> string" where
  "message (TypeError m) = m"
| "message (Error m) = m"

text \<open>Truthiness, as the operators \<^verbatim>\<open>||\<close>, \<^verbatim>\<open>&&\<close> and \<^verbatim>\<open>if\<close> test it.\<close>

fun truthy :: "jsval \<Rightarrow> bool" where
  "truthy JUndefined = False"
| "truthy JNull = False"
| "truthy (JBool b) = b"
| "truthy (JNum n) = (n \<noteq> 0)"
| "truthy (JBigInt n) = (n \<noteq> 0)"
| "truthy (JStr s) = (s \<noteq> [])"
| "truthy (JArr vs) = True"
| "truthy (JObj kvs) = True"

text \<open>\<^verbatim>\<open>a || b\<close>\<close>

definition js_or :: "jsval \<Rightarrow> jsval \<Rightarrow> jsval" where
  "js_or a b = (if truthy a then a else b)"

text \<open>
  The property read \<^verbatim>\<open>v.k\<close> for a key \<open>k\<close> that is no built-in property (the source
  reads \<^verbatim>\<open>userId\<close>, \<^verbatim>\<open>type\<close>, \<^verbatim>\<open>timestamp\<close>, \<^verbatim>\<open>success\<close>, \<^verbatim>\<open>error\<close>): it throws on
  \<^verbatim>\<open>undefined\<close> and \<^verbatim>\<open>null\<close>, and gives \<^verbatim>\<open>undefined\<close> for a key that is absent.
  An object is an association list; the first entry of a key is its value.
\<close>

fun get_prop :: "jsval \<Rightarrow> string \<Rightarrow> js_error + jsval" where
  "get_prop JUndefined k =
     Inl (TypeError (''Cannot read properties of undefined (reading '' @ [CHR 0x27] @ k @ [CHR 0x27] @ '')''))"
| "get_prop JNull k =
     Inl (TypeError (''Cannot read properties of null (reading '' @ [CHR 0x27] @ k @ [CHR 0x27] @ '')''))"
| "get_prop (JObj kvs) k = Inr (case map_of kvs k of None \<Rightarrow> JUndefined | Some v \<Rightarrow> v)"
| "get_prop v k = Inr JUndefined"

text \<open>The same read on a value known to be an object (a result object built by this module).\<close>

fun field :: "jsval \<Rightarrow> string \<Rightarrow> jsval" where
  "field (JObj kvs) k = (case map_of kvs k of None \<Rightarrow> JUndefined | Some v \<Rightarrow> v)"
| "field v k = JUndefined"

text \<open>
  \<^verbatim>\<open>JSON.stringify\<close> throws a TypeError when it meets a BigInt anywhere in the value.
\<close>

fun has_bigint :: "jsval \<Rightarrow> bool" where
  "has_bigint (JBigInt n) = True"
| "has_bigint (JArr vs) = list_ex has_bigint vs"
| "has_bigint (JObj kvs) = list_ex has_bigint (map snd kvs)"
| "has_bigint v = False"

text \<open>
  The engine never reads the text \<^verbatim>\<open>JSON.stringify\<close> produces; it stores it and later
  hands \<^verbatim>\<open>JSON.parse\<close> of it to the transport. The text is therefore kept abstract: it
  is represented by the value it encodes (\<^verbatim>\<open>undefined\<close> for \<^verbatim>\<open>undefined\<close>, which SQLite
  stores as NULL and \<^verbatim>\<open>JSON.parse\<close> reads back as \<^verbatim>\<open>null\<close>). What the model keeps of
  \<^verbatim>\<open>JSON.stringify\<close> is whether it throws; that the round trip drops members whose
  value is \<^verbatim>\<open>undefined\<close> is not modelled.
\<close>

definition JSON_stringify :: "jsval \<Rightarrow> js_error + jsval" where
  "JSON_stringify v =
     (if has_bigint v then Inl (TypeError ''Do not know how to serialize a BigInt'') else Inr v)"

definition JSON_parse :: "jsval \<Rightarrow> jsval" where
  "JSON_parse t = (if t = JUndefined then JNull else t)"

text \<open>Decimal digits of a number, for template literals.\<close>

fun show_nat :: "nat \<Rightarrow> string" where
  "show_nat n =
     (if n < 10 then [char_of (48 + n)] else show_nat (n div 10) @ [char_of (48 + n mod 10)])"

definition show_int :: "int \<Rightarrow> string" where
  "show_int i = (if i < 0 then CHR ''-'' # show_nat (nat (- i)) else show_nat (nat i))"

declare show_nat.simps [simp del]

section \<open>Configuration and tables\<close>

record config =
  baseUrl :: string
  apiKey :: string
  syncInterval :: int
  batchSize :: int
  retryAttempts :: int
  timeout :: int

text \<open>
  \<^verbatim>\<open>CLOUD_CONFIG\<close>, from the two environment variables (\<open>None\<close> when unset; an empty
  value is falsy and gives the default too). The operations below take the
  configuration as an argument, so that they can be read at other batch sizes.
\<close>

definition CLOUD_CONFIG :: "string option \<Rightarrow> string option \<Rightarrow> config" where
  "CLOUD_CONFIG ZYLON_CLOUD_URL ZYLON_API_KEY =
     \<lparr> baseUrl = (case ZYLON_CLOUD_URL of Some u \<Rightarrow> if u \<noteq> [] then u else ''https://api.zylonlabs.com''
                  | None \<Rightarrow> ''https://api.zylonlabs.com''),
       apiKey = (case ZYLON_API_KEY of Some k \<Rightarrow> if k \<noteq> [] then k else ''demo_api_key''
                 | None \<Rightarrow> ''demo_api_key''),
       syncInterval = 2000,
       batchSize = 100,
       retryAttempts = 3,
       timeout = 5000 \<rparr>"

text \<open>
  A row of \<^verbatim>\<open>sync_queue\<close>. \<open>created_at\<close> is SQLite's \<^verbatim>\<open>CURRENT_TIMESTAMP\<close>, a text
  \<^verbatim>\<open>YYYY-MM-DD HH:MM:SS\<close> whose order is the order of the second it names; it is
  modelled as that number of seconds. \<open>user_id\<close> and \<open>event_type\<close> hold the value bound
  to the statement. That is what the \<^verbatim>\<open>TEXT\<close> column stores when the value is a string
  (the defaults \<^verbatim>\<open>'system'\<close> and \<^verbatim>\<open>'activity'\<close> are); for a number or an array the
  column would hold its text, which the model does not compute.
\<close>

record queue_row =
  row_id :: int
  user_id :: jsval
  event_type :: jsval
  data :: jsval
  timestamp :: int
  sync_status :: string
  retry_count :: int
  created_at :: int

record log_row =
  batch_id :: string
  records_synced :: int
  success :: int
  error_message :: jsval
  sync_duration :: int

record activity_row =
  act_user_id :: jsval
  activity_type :: jsval
  details :: jsval
  act_timestamp :: jsval

text \<open>The batch envelope handed to the transport.\<close>

record sync_record =
  rec_id :: int
  rec_userId :: jsval
  rec_eventType :: jsval
  rec_data :: jsval
  rec_timestamp :: int

record sync_batch =
  batchId :: string
  batch_timestamp :: int
  records :: "sync_record list"

text \<open>
  The state: the fields of the one \<^verbatim>\<open>CloudSyncManager\<close>, the three tables of
  \<^verbatim>\<open>sync.db\<close> (each in rowid order), the number of cooldown timers that
  \<^verbatim>\<open>setTimeout\<close> has armed and that have not fired, and the batches \<^verbatim>\<open>sendToCloud\<close>
  has been called with, in order (the trace of the transport).
\<close>

record sync_state =
  isOnline :: bool
  syncInProgress :: bool
  lastSyncTime :: int
  pendingData :: "jsval list"
  sync_queue :: "queue_row list"
  sync_logs :: "log_row list"
  user_activity :: "activity_row list"
  cooldown_timers :: nat
  cloud_calls :: "sync_batch list"

text \<open>\<^verbatim>\<open>constructor()\<close>, over the tables as the database file holds them.\<close>

definition constructor :: "queue_row list \<Rightarrow> log_row list \<Rightarrow> activity_row list \<Rightarrow> sync_state" where
  "constructor q l a =
     \<lparr> isOnline = True, syncInProgress = False, lastSyncTime = 0, pendingData = [],
       sync_queue = q, sync_logs = l, user_activity = a, cooldown_timers = 0, cloud_calls = [] \<rparr>"

text \<open>
  What the program cannot decide: the clock readings, whether SQLite reports an error
  for a statement, the random draw of the demo transport and the outcome of the HTTP
  request. Each call takes them as an argument.
\<close>

record enqueue_env =
  date_now :: int
  current_timestamp :: int
  activity_err :: "string option"
  queue_err :: "string option"

text \<open>
  What \<^verbatim>\<open>axios.post\<close> does: it resolves with a response (status 2xx) whose body is
  \<^verbatim>\<open>response.data\<close>, or it throws. The thrown error has \<^verbatim>\<open>error.response\<close> (the endpoint
  answered with an error status; the string is \<^verbatim>\<open>error.response.data?.message\<close>, empty
  when it is missing or falsy), or only \<^verbatim>\<open>error.request\<close> (no answer arrived), or
  neither.
\<close>

datatype thrown = HttpError nat string | NoResponse | OtherError string

datatype axios_outcome = Response jsval | Failed thrown

record sync_env =
  t_batch :: int
  t_start :: int
  t_payload :: int
  t_log :: int
  t_last :: int
  t_catch :: int
  select_err :: "string option"
  update_err :: "string option"
  log_err :: "string option"
  catch_log_err :: "string option"
  rand_fail :: bool
  axios_post :: axios_outcome

section \<open>The outbox\<close>

text \<open>\<^verbatim>\<open>INTEGER PRIMARY KEY AUTOINCREMENT\<close>: one more than the largest rowid; no row is ever deleted.\<close>

definition next_rowid :: "int list \<Rightarrow> int" where
  "next_rowid ids = fold max ids 0 + 1"

definition addToSyncQueue :: "enqueue_env \<Rightarrow> jsval \<Rightarrow> sync_state \<Rightarrow> (js_error + int) \<times> sync_state" where
  "addToSyncQueue e d w =
     (case JSON_stringify d of
        Inl x \<Rightarrow> (Inl x, w)
      | Inr eventData \<Rightarrow>
          (case get_prop d ''userId'' of
             Inl x \<Rightarrow> (Inl x, w)
           | Inr uid \<Rightarrow>
               (case get_prop d ''type'' of
                  Inl x \<Rightarrow> (Inl x, w)
                | Inr ty \<Rightarrow>
                    (case queue_err e of
                       Some m \<Rightarrow> (Inl (Error m), w)
                     | None \<Rightarrow>
                         (let lastID = next_rowid (map row_id (sync_queue w)) in
                          (Inr lastID,
                           w\<lparr>sync_queue := sync_queue w @
                              [\<lparr> row_id = lastID,
                                 user_id = js_or uid (JStr ''system''),
                                 event_type = js_or ty (JStr ''activity''),
                                 data = eventData,
                                 timestamp = date_now e,
                                 sync_status = ''pending'',
                                 retry_count = 0,
                                 created_at = current_timestamp e \<rparr>]\<rparr>))))))"

text \<open>\<^verbatim>\<open>LIMIT ?\<close>: SQLite reads a negative limit as no limit.\<close>

definition sql_limit :: "int \<Rightarrow> 'a list \<Rightarrow> 'a list" where
  "sql_limit n xs = (if n < 0 then xs else take (nat n) xs)"

text \<open>
  \<^verbatim>\<open>SELECT * FROM sync_queue WHERE sync_status = 'pending' AND retry_count < ?
  ORDER BY created_at ASC LIMIT ?\<close>. SQL leaves the order of rows with equal
  \<open>created_at\<close> open; the model keeps them in rowid order (a stable sort).
\<close>

definition selectable :: "config \<Rightarrow> queue_row \<Rightarrow> bool" where
  "selectable cfg r = (sync_status r = ''pending'' \<and> retry_count r < retryAttempts cfg)"

definition getPendingRecords :: "config \<Rightarrow> string option \<Rightarrow> int \<Rightarrow> sync_state \<Rightarrow> js_error + queue_row list" where
  "getPendingRecords cfg err limit w =
     (case err of
        Some m \<Rightarrow> Inl (Error m)
      | None \<Rightarrow> Inr (sql_limit limit (sort_key created_at (filter (selectable cfg) (sync_queue w)))))"

definition markRecordsSynced :: "string option \<Rightarrow> int list \<Rightarrow> sync_state \<Rightarrow> (js_error + unit) \<times> sync_state" where
  "markRecordsSynced err recordIds w =
     (case err of
        Some m \<Rightarrow> (Inl (Error m), w)
      | None \<Rightarrow>
          (Inr (),
           w\<lparr>sync_queue :=
               map (\<lambda>r. if row_id r \<in> set recordIds then r\<lparr>sync_status := ''synced''\<rparr> else r)
                   (sync_queue w)\<rparr>))"

definition handleSyncFailure :: "string option \<Rightarrow> queue_row list \<Rightarrow> jsval \<Rightarrow> sync_state \<Rightarrow> (js_error + unit) \<times> sync_state" where
  "handleSyncFailure err recs error w =
     (let recordIds = map row_id recs in
      case err of
        Some m \<Rightarrow> (Inl (Error m), w)
      | None \<Rightarrow>
          (Inr (),
           w\<lparr>sync_queue :=
               map (\<lambda>r. if row_id r \<in> set recordIds
                         then r\<lparr>retry_count := retry_count r + 1, sync_status := ''failed''\<rparr> else r)
                   (sync_queue w)\<rparr>))"

definition logSync :: "string option \<Rightarrow> string \<Rightarrow> int \<Rightarrow> bool \<Rightarrow> jsval \<Rightarrow> int \<Rightarrow> sync_state \<Rightarrow> (js_error + unit) \<times> sync_state" where
  "logSync err bid recordsCount succ errorMessage duration w =
     (case err of
        Some m \<Rightarrow> (Inl (Error m), w)
      | None \<Rightarrow>
          (Inr (),
           w\<lparr>sync_logs := sync_logs w @
               [\<lparr> batch_id = bid, records_synced = recordsCount, success = (if succ then 1 else 0),
                  error_message = errorMessage, sync_duration = duration \<rparr>]\<rparr>))"

section \<open>The transport\<close>

text \<open>
  The \<^verbatim>\<open>catch\<close> block of \<^verbatim>\<open>sendToCloud\<close>: whatever was thrown, \<^verbatim>\<open>isOnline\<close> becomes false
  and a timer is armed that sets it back after 30 seconds; the three branches differ in
  the error text only.
\<close>

definition sendToCloud_catch :: "thrown \<Rightarrow> sync_state \<Rightarrow> jsval \<times> sync_state" where
  "sendToCloud_catch x w =
     (let w' = w\<lparr>isOnline := False, cooldown_timers := Suc (cooldown_timers w)\<rparr> in
      case x of
        HttpError status msg \<Rightarrow>
          (JObj [(''success'', JBool False),
                 (''error'', JStr (''HTTP '' @ show_nat status @ '': '' @
                                   (if msg \<noteq> [] then msg else ''Unknown error'')))], w')
      | NoResponse \<Rightarrow>
          (JObj [(''success'', JBool False),
                 (''error'', JStr ''Network error - offline mode activated'')], w')
      | OtherError m \<Rightarrow>
          (JObj [(''success'', JBool False), (''error'', JStr m)], w'))"

text \<open>The callback of that timer.\<close>

definition cooldown_fires :: "sync_state \<Rightarrow> sync_state" where
  "cooldown_fires w =
     (if cooldown_timers w = 0 then w
      else w\<lparr>isOnline := True, cooldown_timers := cooldown_timers w - 1\<rparr>)"

text \<open>
  The entries \<^verbatim>\<open>...response.data\<close> spreads into the result. (A string or an array
  spreads its indices, which are never \<^verbatim>\<open>success\<close> or \<^verbatim>\<open>error\<close>; they are left out.)
\<close>

fun spread :: "jsval \<Rightarrow> (string \<times> jsval) list" where
  "spread (JObj kvs) = kvs"
| "spread v = []"

text \<open>
  \<^verbatim>\<open>{ success: true, ...response.data }\<close>: an entry of the body replaces the literal's
  \<^verbatim>\<open>success\<close>, so in the association list the body's entries come first.
\<close>

definition sendToCloud :: "config \<Rightarrow> sync_env \<Rightarrow> sync_batch \<Rightarrow> sync_state \<Rightarrow> jsval \<times> sync_state" where
  "sendToCloud cfg e b w0 =
     (let w = w0\<lparr>cloud_calls := cloud_calls w0 @ [b]\<rparr> in
      if apiKey cfg = ''demo_api_key'' then
        (if rand_fail e then sendToCloud_catch (OtherError ''Simulated cloud sync failure'') w
         else (JObj [(''success'', JBool True), (''batchId'', JStr (batchId b)),
                     (''recordsProcessed'', JNum (int (length (records b))))], w))
      else
        (case axios_post e of
           Response d \<Rightarrow> (JObj (spread d @ [(''success'', JBool True)]), w)
         | Failed x \<Rightarrow> sendToCloud_catch x w))"

section \<open>The dispatcher\<close>

definition to_sync_record :: "queue_row \<Rightarrow> sync_record" where
  "to_sync_record r =
     \<lparr> rec_id = row_id r, rec_userId = user_id r, rec_eventType = event_type r,
       rec_data = JSON_parse (data r), rec_timestamp = timestamp r \<rparr>"

text \<open>
  The body of the \<^verbatim>\<open>try\<close> block of \<^verbatim>\<open>performSync\<close>, entered with \<^verbatim>\<open>syncInProgress\<close> set.
  \<open>Inl\<close> is an exception on its way to the \<^verbatim>\<open>catch\<close> block.
\<close>

definition performSync_try :: "config \<Rightarrow> sync_env \<Rightarrow> string \<Rightarrow> int \<Rightarrow> sync_state \<Rightarrow> (js_error + jsval) \<times> sync_state" where
  "performSync_try cfg e bid startTime w =
     (case getPendingRecords cfg (select_err e) (batchSize cfg) w of
        Inl x \<Rightarrow> (Inl x, w)
      | Inr pendingRecords \<Rightarrow>
          if length pendingRecords = 0 then
            (Inr (JObj [(''success'', JBool True), (''message'', JStr ''No data to sync'')]),
             w\<lparr>syncInProgress := False\<rparr>)
          else
            (let syncData = \<lparr> batchId = bid, batch_timestamp = t_payload e,
                               records = map to_sync_record pendingRecords \<rparr>;
                 (result, w1) = sendToCloud cfg e syncData w
             in
             if truthy (field result ''success'') then
               (case markRecordsSynced (update_err e) (map row_id pendingRecords) w1 of
                  (Inl x, w2) \<Rightarrow> (Inl x, w2)
                | (Inr u, w2) \<Rightarrow>
                    (case logSync (log_err e) bid (int (length pendingRecords)) True JNull
                                  (t_log e - startTime) w2 of
                       (Inl x, w3) \<Rightarrow> (Inl x, w3)
                     | (Inr u', w3) \<Rightarrow> (Inr result, w3\<lparr>lastSyncTime := t_last e\<rparr>)))
             else
               (case handleSyncFailure (update_err e) pendingRecords (field result ''error'') w1 of
                  (Inl x, w2) \<Rightarrow> (Inl x, w2)
                | (Inr u, w2) \<Rightarrow>
                    (case logSync (log_err e) bid 0 False (field result ''error'')
                                  (t_log e - startTime) w2 of
                       (Inl x, w3) \<Rightarrow> (Inl x, w3)
                     | (Inr u', w3) \<Rightarrow> (Inr result, w3\<lparr>lastSyncTime := t_last e\<rparr>)))))"

text \<open>
  \<^verbatim>\<open>performSync\<close>: the guard, the \<^verbatim>\<open>try\<close> block, the \<^verbatim>\<open>catch\<close> block (whose own
  \<^verbatim>\<open>logSync\<close> may reject, and then the call rejects) and the \<^verbatim>\<open>finally\<close> block.
  \<open>Inl\<close> in the result is a rejected promise.

  A call is modelled from its first statement to its return. The guard and the
  assignment \<^verbatim>\<open>syncInProgress = true\<close> run before the first \<^verbatim>\<open>await\<close>, so a call that
  arrives while a dispatch is suspended finds the flag set: that call is
  \<open>performSync\<close> applied to a state with \<open>syncInProgress\<close> true.
\<close>

definition performSync :: "config \<Rightarrow> sync_env \<Rightarrow> sync_state \<Rightarrow> (js_error + jsval) \<times> sync_state" where
  "performSync cfg e w =
     (if syncInProgress w then
        (Inr (JObj [(''success'', JBool True), (''message'', JStr ''Sync already in progress'')]), w)
      else
        (let w0 = w\<lparr>syncInProgress := True\<rparr>;
             bid = ''batch_'' @ show_int (t_batch e);
             startTime = t_start e
         in
         case performSync_try cfg e bid startTime w0 of
           (Inr r, w1) \<Rightarrow> (Inr r, w1\<lparr>syncInProgress := False\<rparr>)
         | (Inl x, w1) \<Rightarrow>
             (case logSync (catch_log_err e) bid 0 False (JStr (message x))
                           (t_catch e - startTime) w1 of
                (Inl y, w2) \<Rightarrow> (Inl y, w2\<lparr>syncInProgress := False\<rparr>)
              | (Inr u, w2) \<Rightarrow>
                  (Inr (JObj [(''success'', JBool False), (''error'', JStr (message x))]),
                   w2\<lparr>syncInProgress := False\<rparr>))))"

section \<open>The entry points\<close>

definition syncData :: "config \<Rightarrow> enqueue_env \<Rightarrow> sync_env \<Rightarrow> jsval \<Rightarrow> sync_state \<Rightarrow> jsval \<times> sync_state" where
  "syncData cfg qe e d w =
     (case addToSyncQueue qe d w of
        (Inl x, w1) \<Rightarrow> (JObj [(''success'', JBool False), (''error'', JStr (message x))], w1)
      | (Inr lastID, w1) \<Rightarrow>
          if isOnline w1 \<and> \<not> syncInProgress w1 then
            (case performSync cfg e w1 of
               (Inl x, w2) \<Rightarrow> (JObj [(''success'', JBool False), (''error'', JStr (message x))], w2)
             | (Inr r, w2) \<Rightarrow> (JObj [(''success'', JBool True), (''queued'', JBool True)], w2))
          else (JObj [(''success'', JBool True), (''queued'', JBool True)], w1))"

definition logEvent :: "enqueue_env \<Rightarrow> jsval \<Rightarrow> sync_state \<Rightarrow> jsval \<times> sync_state" where
  "logEvent qe eventData w =
     (let failed = (\<lambda>x w'. (JObj [(''success'', JBool False), (''error'', JStr (message x))], w')) in
      case get_prop eventData ''userId'' of
        Inl x \<Rightarrow> failed x w
      | Inr uid \<Rightarrow>
          (case get_prop eventData ''type'' of
             Inl x \<Rightarrow> failed x w
           | Inr ty \<Rightarrow>
               (case JSON_stringify eventData of
                  Inl x \<Rightarrow> failed x w
                | Inr text \<Rightarrow>
                    (case get_prop eventData ''timestamp'' of
                       Inl x \<Rightarrow> failed x w
                     | Inr ts \<Rightarrow>
                         (case activity_err qe of
                            Some m \<Rightarrow> failed (Error m) w
                          | None \<Rightarrow>
                              (let w1 = w\<lparr>user_activity := user_activity w @
                                          [\<lparr> act_user_id = js_or uid (JStr ''system''),
                                             activity_type = js_or ty (JStr ''activity''),
                                             details = text,
                                             act_timestamp = js_or ts (JNum (date_now qe)) \<rparr>]\<rparr>
                               in
                               case addToSyncQueue qe eventData w1 of
                                 (Inl x, w2) \<Rightarrow> failed x w2
                               | (Inr lastID, w2) \<Rightarrow> (JObj [(''success'', JBool True)], w2)))))))"

text \<open>\<open>None\<close> is the call returning nothing; \<open>Some (Inl x)\<close> is \<^verbatim>\<open>performSync\<close> rejecting.\<close>

definition performScheduledSync :: "config \<Rightarrow> int \<Rightarrow> sync_env \<Rightarrow> sync_state \<Rightarrow> js_error option \<times> sync_state" where
  "performScheduledSync cfg now e w =
     (if \<not> isOnline w then (None, w)
      else
        (let timeSinceLastSync = now - lastSyncTime w in
         if timeSinceLastSync \<ge> syncInterval cfg then
           (case performSync cfg e w of
              (Inl x, w1) \<Rightarrow> (Some x, w1)
            | (Inr r, w1) \<Rightarrow> (None, w1))
         else (None, w)))"

section \<open>Outcomes of a send\<close>

text \<open>
  Two readings of the environment, each tied to \<^const>\<open>sendToCloud\<close> by a lemma below
  (\<open>sendToCloud_state\<close>, \<open>sendToCloud_success\<close>): the send throws into its \<^verbatim>\<open>catch\<close>
  block; the result's \<^verbatim>\<open>success\<close> is truthy. A response with status 2xx whose body
  carries a falsy \<^verbatim>\<open>success\<close> is neither.
\<close>

definition send_throws :: "config \<Rightarrow> sync_env \<Rightarrow> bool" where
  "send_throws cfg e =
     (if apiKey cfg = ''demo_api_key'' then rand_fail e
      else (case axios_post e of Response d \<Rightarrow> False | Failed x \<Rightarrow> True))"

definition send_succeeds :: "config \<Rightarrow> sync_env \<Rightarrow> bool" where
  "send_succeeds cfg e =
     (if apiKey cfg = ''demo_api_key'' then \<not> rand_fail e
      else (case axios_post e of
              Response d \<Rightarrow> truthy (field (JObj (spread d @ [(''success'', JBool True)])) ''success'')
            | Failed x \<Rightarrow> False))"

text \<open>The envelope \<^verbatim>\<open>performSync\<close> builds from the selected rows.\<close>

definition the_batch :: "sync_env \<Rightarrow> queue_row list \<Rightarrow> sync_batch" where
  "the_batch e rows =
     \<lparr> batchId = ''batch_'' @ show_int (t_batch e), batch_timestamp = t_payload e,
       records = map to_sync_record rows \<rparr>"

section \<open>A dispatch, await by await\<close>

text \<open>
  \<^verbatim>\<open>performSync\<close> is an \<^verbatim>\<open>async\<close> function: it runs until an \<^verbatim>\<open>await\<close>, and
  other calls of the module run before the awaited operation settles. The points where
  it waits are the constructors of \<open>pc\<close>, each with the local variables that are live
  there: the query of \<^verbatim>\<open>getPendingRecords\<close>, \<^verbatim>\<open>sendToCloud\<close>, the \<^verbatim>\<open>UPDATE\<close> of
  \<^verbatim>\<open>markRecordsSynced\<close> or \<^verbatim>\<open>handleSyncFailure\<close>, the \<^verbatim>\<open>INSERT\<close> of \<^verbatim>\<open>logSync\<close>,
  and the \<^verbatim>\<open>logSync\<close> of the \<^verbatim>\<open>catch\<close> block. \<open>performSync_start\<close> is the code before
  the first \<^verbatim>\<open>await\<close> (the guard and \<^verbatim>\<open>syncInProgress = true\<close>);
  \<open>performSync_resume\<close> takes the dispatch from one \<^verbatim>\<open>await\<close> to the next, or to its
  return through the \<^verbatim>\<open>finally\<close> block. The effect of an awaited operation is applied
  when it settles, on the state as it is then. Run without interruption, the pieces
  make up \<^const>\<open>performSync\<close> (lemma \<open>uninterrupted_is_performSync\<close>).
\<close>

datatype pc =
    AwaitSelect
  | AwaitSend "queue_row list"
  | AwaitUpdate "queue_row list" jsval
  | AwaitLog "queue_row list" jsval
  | AwaitCatchLog js_error

datatype progress = Suspended pc sync_state | Finished "js_error + jsval" sync_state

fun state_of :: "progress \<Rightarrow> sync_state" where
  "state_of (Suspended p w) = w"
| "state_of (Finished r w) = w"

definition performSync_start :: "config \<Rightarrow> sync_env \<Rightarrow> sync_state \<Rightarrow> progress" where
  "performSync_start cfg e w =
     (if syncInProgress w then
        Finished (Inr (JObj [(''success'', JBool True), (''message'', JStr ''Sync already in progress'')])) w
      else Suspended AwaitSelect (w\<lparr>syncInProgress := True\<rparr>))"

definition performSync_catch :: "js_error \<Rightarrow> sync_state \<Rightarrow> progress" where
  "performSync_catch x w = Suspended (AwaitCatchLog x) w"

definition performSync_resume :: "config \<Rightarrow> sync_env \<Rightarrow> pc \<Rightarrow> sync_state \<Rightarrow> progress" where
  "performSync_resume cfg e p w =
     (let bid = ''batch_'' @ show_int (t_batch e);
          startTime = t_start e
      in
      case p of
        AwaitSelect \<Rightarrow>
          (case getPendingRecords cfg (select_err e) (batchSize cfg) w of
             Inl x \<Rightarrow> performSync_catch x w
           | Inr pendingRecords \<Rightarrow>
               if length pendingRecords = 0 then
                 Finished (Inr (JObj [(''success'', JBool True), (''message'', JStr ''No data to sync'')]))
                          (w\<lparr>syncInProgress := False\<rparr>)
               else Suspended (AwaitSend pendingRecords) w)
      | AwaitSend pendingRecords \<Rightarrow>
          (let syncData = \<lparr> batchId = bid, batch_timestamp = t_payload e,
                            records = map to_sync_record pendingRecords \<rparr>;
               (result, w1) = sendToCloud cfg e syncData w
           in Suspended (AwaitUpdate pendingRecords result) w1)
      | AwaitUpdate pendingRecords result \<Rightarrow>
          (if truthy (field result ''success'') then
             (case markRecordsSynced (update_err e) (map row_id pendingRecords) w of
                (Inl x, w2) \<Rightarrow> performSync_catch x w2
              | (Inr u, w2) \<Rightarrow> Suspended (AwaitLog pendingRecords result) w2)
           else
             (case handleSyncFailure (update_err e) pendingRecords (field result ''error'') w of
                (Inl x, w2) \<Rightarrow> performSync_catch x w2
              | (Inr u, w2) \<Rightarrow> Suspended (AwaitLog pendingRecords result) w2))
      | AwaitLog pendingRecords result \<Rightarrow>
          (case (if truthy (field result ''success'')
                 then logSync (log_err e) bid (int (length pendingRecords)) True JNull
                              (t_log e - startTime) w
                 else logSync (log_err e) bid 0 False (field result ''error'')
                              (t_log e - startTime) w) of
             (Inl x, w3) \<Rightarrow> performSync_catch x w3
           | (Inr u, w3) \<Rightarrow>
               Finished (Inr result) (w3\<lparr>lastSyncTime := t_last e, syncInProgress := False\<rparr>))
      | AwaitCatchLog x \<Rightarrow>
          (case logSync (catch_log_err e) bid 0 False (JStr (message x)) (t_catch e - startTime) w of
             (Inl y, w2) \<Rightarrow> Finished (Inl y) (w2\<lparr>syncInProgress := False\<rparr>)
           | (Inr u, w2) \<Rightarrow>
               Finished (Inr (JObj [(''success'', JBool False), (''error'', JStr (message x))]))
                        (w2\<lparr>syncInProgress := False\<rparr>)))"

definition advance :: "config \<Rightarrow> sync_env \<Rightarrow> progress \<Rightarrow> progress" where
  "advance cfg e g = (case g of Suspended p w \<Rightarrow> performSync_resume cfg e p w | Finished r w \<Rightarrow> Finished r w)"

definition performSync_uninterrupted :: "config \<Rightarrow> sync_env \<Rightarrow> sync_state \<Rightarrow> progress" where
  "performSync_uninterrupted cfg e w =
     advance cfg e (advance cfg e (advance cfg e (advance cfg e (advance cfg e
       (performSync_start cfg e w)))))"

section \<open>The module as a system of events\<close>

text \<open>
  The manager together with the dispatches that are waiting at an \<^verbatim>\<open>await\<close>, each with
  the environment it runs in. The events are what the module's exports and the runtime
  can do: \<^verbatim>\<open>syncData\<close> up to its insert, and its continuation (the test of line 76 and
  the call of \<^verbatim>\<open>performSync\<close>); \<^verbatim>\<open>logEvent\<close> (its two inserts taken together);
  \<^verbatim>\<open>performScheduledSync\<close>; an awaited
  operation of a dispatch settling; the cooldown timer firing. \<^verbatim>\<open>performSync\<close> itself
  is not exported.
\<close>

record system =
  manager :: sync_state
  dispatches :: "(sync_env \<times> pc) list"

datatype event =
    SyncDataEnqueue enqueue_env jsval
  | SyncDataKick sync_env
  | LogEvent enqueue_env jsval
  | ScheduledTick int sync_env
  | Settle nat
  | CooldownTimer

definition boot :: "queue_row list \<Rightarrow> log_row list \<Rightarrow> activity_row list \<Rightarrow> system" where
  "boot q l a = \<lparr> manager = constructor q l a, dispatches = [] \<rparr>"

definition call_performSync :: "config \<Rightarrow> sync_env \<Rightarrow> system \<Rightarrow> system" where
  "call_performSync cfg e s =
     (case performSync_start cfg e (manager s) of
        Finished r w \<Rightarrow> s\<lparr>manager := w\<rparr>
      | Suspended p w \<Rightarrow> s\<lparr>manager := w, dispatches := dispatches s @ [(e, p)]\<rparr>)"

definition settle :: "config \<Rightarrow> nat \<Rightarrow> system \<Rightarrow> system" where
  "settle cfg i s =
     (if i < length (dispatches s) then
        (case performSync_resume cfg (fst (dispatches s ! i)) (snd (dispatches s ! i)) (manager s) of
           Suspended p w \<Rightarrow>
             s\<lparr>manager := w, dispatches := (dispatches s)[i := (fst (dispatches s ! i), p)]\<rparr>
         | Finished r w \<Rightarrow>
             s\<lparr>manager := w, dispatches := take i (dispatches s) @ drop (Suc i) (dispatches s)\<rparr>)
      else s)"

fun step :: "config \<Rightarrow> event \<Rightarrow> system \<Rightarrow> system" where
  "step cfg (SyncDataEnqueue qe d) s = s\<lparr>manager := snd (addToSyncQueue qe d (manager s))\<rparr>"
| "step cfg (SyncDataKick e) s =
     (if isOnline (manager s) \<and> \<not> syncInProgress (manager s) then call_performSync cfg e s else s)"
| "step cfg (LogEvent qe d) s = s\<lparr>manager := snd (logEvent qe d (manager s))\<rparr>"
| "step cfg (ScheduledTick now e) s =
     (if \<not> isOnline (manager s) then s
      else if now - lastSyncTime (manager s) \<ge> syncInterval cfg then call_performSync cfg e s
      else s)"
| "step cfg (Settle i) s = settle cfg i s"
| "step cfg CooldownTimer s = s\<lparr>manager := cooldown_fires (manager s)\<rparr>"

definition run :: "config \<Rightarrow> event list \<Rightarrow> system \<Rightarrow> system" where
  "run cfg evs s = fold (step cfg) evs s"

fun sent_result :: "pc \<Rightarrow> jsval option" where
  "sent_result (AwaitUpdate rows result) = Some result"
| "sent_result (AwaitLog rows result) = Some result"
| "sent_result p = None"

definition exclusive :: "config \<Rightarrow> system \<Rightarrow> bool" where
  "exclusive cfg s =
     (length (dispatches s) \<le> 1
      \<and> syncInProgress (manager s) = (dispatches s \<noteq> [])
      \<and> (\<forall>(e, p) \<in> set (dispatches s).
            (send_succeeds cfg e \<longrightarrow> isOnline (manager s))
            \<and> (\<forall>r. sent_result p = Some r \<longrightarrow> truthy (field r ''success'') = send_succeeds cfg e)))"

section \<open>Sample inputs\<close>

definition demo_config :: config where
  "demo_config = CLOUD_CONFIG None None"

definition live_config :: config where
  "live_config = CLOUD_CONFIG None (Some ''k1'')"

definition quiet_env :: sync_env where
  "quiet_env =
     \<lparr> t_batch = 1000, t_start = 1000, t_payload = 1001, t_log = 1200, t_last = 1201,
       t_catch = 1300, select_err = None, update_err = None, log_err = None,
       catch_log_err = None, rand_fail = False, axios_post = Response (JObj []) \<rparr>"

definition clock :: "int \<Rightarrow> enqueue_env" where
  "clock s = \<lparr> date_now = 1000 * s, current_timestamp = s, activity_err = None, queue_err = None \<rparr>"

definition sample_row :: "int \<Rightarrow> string \<Rightarrow> int \<Rightarrow> int \<Rightarrow> queue_row" where
  "sample_row i st n c =
     \<lparr> row_id = i, user_id = JStr ''system'', event_type = JStr ''activity'', data = JObj [],
       timestamp = 1000 * c, sync_status = st, retry_count = n, created_at = c \<rparr>"

definition two_pending :: sync_state where
  "two_pending = constructor [sample_row 1 ''pending'' 0 7, sample_row 2 ''pending'' 0 8] [] []"

definition sample_event :: jsval where
  "sample_event = JObj [(''type'', JStr ''app_launch''), (''userId'', JStr ''u1'')]"

definition five_pending :: sync_state where
  "five_pending =
     constructor [sample_row 1 ''pending'' 0 7, sample_row 2 ''pending'' 0 7, sample_row 3 ''synced'' 0 8,
                  sample_row 4 ''pending'' 0 8, sample_row 5 ''pending'' 0 9, sample_row 6 ''pending'' 0 9] [] []"

definition one_failed :: sync_state where
  "one_failed =
     snd (performSync demo_config (quiet_env\<lparr>rand_fail := True\<rparr>)
            (snd (addToSyncQueue (clock 7) sample_event (constructor [] [] []))))"


section \<open>Selection\<close>

lemma set_sql_limit: "set (sql_limit n xs) \<subseteq> set xs"
  by (auto simp: sql_limit_def dest: in_set_takeD)

lemma length_sql_limit: "0 \<le> n \<Longrightarrow> int (length (sql_limit n xs)) \<le> n"
  by (simp add: sql_limit_def)

lemma getPendingRecords_rows:
  "getPendingRecords cfg err limit w = Inr rows \<Longrightarrow>
     rows = sql_limit limit (sort_key created_at (filter (selectable cfg) (sync_queue w)))"
  by (simp add: getPendingRecords_def split: option.splits)

lemma getPendingRecords_selectable:
  assumes "getPendingRecords cfg err limit w = Inr rows" and "r \<in> set rows"
  shows "selectable cfg r \<and> r \<in> set (sync_queue w)"
proof -
  have "set rows \<subseteq> set (sort_key created_at (filter (selectable cfg) (sync_queue w)))"
    unfolding getPendingRecords_rows [OF assms(1)] by (rule set_sql_limit)
  with assms(2) have "r \<in> set (sort_key created_at (filter (selectable cfg) (sync_queue w)))"
    by (rule rev_subsetD)
  then show ?thesis by simp
qed

lemma getPendingRecords_flag [simp]:
  "getPendingRecords cfg err n (w\<lparr>syncInProgress := b\<rparr>) = getPendingRecords cfg err n w"
  by (simp add: getPendingRecords_def split: option.splits)

lemma sorted_sql_limit: "sorted (map f xs) \<Longrightarrow> sorted (map f (sql_limit n xs))"
  by (simp add: sql_limit_def take_map [symmetric])

lemma sorted_selection:
  assumes "getPendingRecords cfg err limit w = Inr rows"
  shows "sorted (map created_at rows)"
  unfolding getPendingRecords_rows [OF assms] by (rule sorted_sql_limit) (rule sorted_sort_key)

text \<open>
  C3. A record whose retry count has reached \<^verbatim>\<open>retryAttempts\<close> is in no selection:
  whatever the store holds and whatever the limit, \<^verbatim>\<open>getPendingRecords\<close> does not
  return it.
\<close>

theorem exhausted_never_selected:
  assumes "getPendingRecords cfg err limit w = Inr rows"
    and "retry_count r \<ge> retryAttempts cfg"
  shows "r \<notin> set rows"
proof
  assume "r \<in> set rows"
  with assms(1) have "selectable cfg r" by (simp add: getPendingRecords_selectable)
  with assms(2) show False by (simp add: selectable_def)
qed

theorem exhausted_never_selected_witness:
  "getPendingRecords demo_config None 100
       (constructor [sample_row 1 ''pending'' 3 7, sample_row 2 ''pending'' 0 8] [] [])
     = Inr [sample_row 2 ''pending'' 0 8]
   \<and> retry_count (sample_row 1 ''pending'' 3 7) \<ge> retryAttempts demo_config
   \<and> sample_row 1 ''pending'' 3 7 \<notin> set [sample_row 2 ''pending'' 0 8]"
proof -
  have sel: "getPendingRecords demo_config None 100
       (constructor [sample_row 1 ''pending'' 3 7, sample_row 2 ''pending'' 0 8] [] [])
     = Inr [sample_row 2 ''pending'' 0 8]"
    by (simp add: getPendingRecords_def constructor_def selectable_def sample_row_def
          demo_config_def CLOUD_CONFIG_def sql_limit_def)
  have ex: "retry_count (sample_row 1 ''pending'' 3 7) \<ge> retryAttempts demo_config"
    by (simp add: sample_row_def demo_config_def CLOUD_CONFIG_def)
  from sel ex exhausted_never_selected [OF sel ex] show ?thesis by simp
qed

section \<open>What enqueueing leaves alone\<close>

lemma addToSyncQueue_keeps:
  "syncInProgress (snd (addToSyncQueue qe d w)) = syncInProgress w"
  "isOnline (snd (addToSyncQueue qe d w)) = isOnline w"
  "cloud_calls (snd (addToSyncQueue qe d w)) = cloud_calls w"
  by (simp_all add: addToSyncQueue_def Let_def split: sum.splits option.splits)

section \<open>What one dispatch does\<close>

lemma sendToCloud_catch_state:
  "snd (sendToCloud_catch x w) = w\<lparr>isOnline := False, cooldown_timers := Suc (cooldown_timers w)\<rparr>"
  by (simp add: sendToCloud_catch_def Let_def split: thrown.splits)

lemma sendToCloud_catch_success:
  "\<not> truthy (field (fst (sendToCloud_catch x w)) ''success'')"
  by (simp add: sendToCloud_catch_def Let_def split: thrown.splits)

lemma sendToCloud_state:
  "snd (sendToCloud cfg e b w) =
     (if send_throws cfg e
      then w\<lparr>cloud_calls := cloud_calls w @ [b], isOnline := False,
             cooldown_timers := Suc (cooldown_timers w)\<rparr>
      else w\<lparr>cloud_calls := cloud_calls w @ [b]\<rparr>)"
  by (simp add: sendToCloud_def send_throws_def Let_def sendToCloud_catch_state
           split: axios_outcome.splits)

lemma sendToCloud_success:
  "truthy (field (fst (sendToCloud cfg e b w)) ''success'') = send_succeeds cfg e"
  by (simp add: sendToCloud_def send_succeeds_def Let_def sendToCloud_catch_success
           split: axios_outcome.splits)

lemma send_succeeds_not_throws: "send_succeeds cfg e \<Longrightarrow> \<not> send_throws cfg e"
  by (simp add: send_succeeds_def send_throws_def split: if_splits axios_outcome.splits)

lemmas dispatch_defs =
  performSync_def performSync_try_def Let_def markRecordsSynced_def handleSyncFailure_def logSync_def

lemma performSync_dispatch:
  assumes idle: "\<not> syncInProgress w"
    and sel: "getPendingRecords cfg (select_err e) (batchSize cfg) w = Inr rows"
    and ne: "rows \<noteq> []"
  shows "cloud_calls (snd (performSync cfg e w)) = cloud_calls w @ [the_batch e rows]"
    and "isOnline (snd (performSync cfg e w)) = (isOnline w \<and> \<not> send_throws cfg e)"
    and "update_err e = None \<Longrightarrow> \<not> send_succeeds cfg e \<Longrightarrow>
           sync_queue (snd (performSync cfg e w)) =
             map (\<lambda>r. if row_id r \<in> set (map row_id rows)
                       then r\<lparr>retry_count := retry_count r + 1, sync_status := ''failed''\<rparr> else r)
                 (sync_queue w)"
    and "update_err e = None \<Longrightarrow> send_succeeds cfg e \<Longrightarrow>
           sync_queue (snd (performSync cfg e w)) =
             map (\<lambda>r. if row_id r \<in> set (map row_id rows) then r\<lparr>sync_status := ''synced''\<rparr> else r)
                 (sync_queue w)"
    and "\<not> syncInProgress (snd (performSync cfg e w))"
proof -
  obtain result w1 where s: "sendToCloud cfg e (the_batch e rows) (w\<lparr>syncInProgress := True\<rparr>) = (result, w1)"
    by (cases "sendToCloud cfg e (the_batch e rows) (w\<lparr>syncInProgress := True\<rparr>)")
  have w1: "w1 = (if send_throws cfg e
      then w\<lparr>syncInProgress := True, cloud_calls := cloud_calls w @ [the_batch e rows], isOnline := False,
             cooldown_timers := Suc (cooldown_timers w)\<rparr>
      else w\<lparr>syncInProgress := True, cloud_calls := cloud_calls w @ [the_batch e rows]\<rparr>)"
    using sendToCloud_state [of cfg e "the_batch e rows" "w\<lparr>syncInProgress := True\<rparr>"] s by simp
  have r: "truthy (field result ''success'') = send_succeeds cfg e"
    using sendToCloud_success [of cfg e "the_batch e rows" "w\<lparr>syncInProgress := True\<rparr>"] s by simp
  from s have s': "sendToCloud cfg e \<lparr> batchId = ''batch_'' @ show_int (t_batch e), batch_timestamp = t_payload e,
                               records = map to_sync_record rows \<rparr> (w\<lparr>syncInProgress := True\<rparr>) = (result, w1)"
    by (simp add: the_batch_def)
  show "cloud_calls (snd (performSync cfg e w)) = cloud_calls w @ [the_batch e rows]"
    using idle sel ne s' r w1 by (simp add: dispatch_defs split: option.splits)
  show "isOnline (snd (performSync cfg e w)) = (isOnline w \<and> \<not> send_throws cfg e)"
    using idle sel ne s' r w1 send_succeeds_not_throws [of cfg e] by (auto simp add: dispatch_defs split: option.splits)
  show "update_err e = None \<Longrightarrow> \<not> send_succeeds cfg e \<Longrightarrow>
           sync_queue (snd (performSync cfg e w)) =
             map (\<lambda>r. if row_id r \<in> set (map row_id rows)
                       then r\<lparr>retry_count := retry_count r + 1, sync_status := ''failed''\<rparr> else r)
                 (sync_queue w)"
    using idle sel ne s' r w1 by (simp add: dispatch_defs split: option.splits)
  show "update_err e = None \<Longrightarrow> send_succeeds cfg e \<Longrightarrow>
           sync_queue (snd (performSync cfg e w)) =
             map (\<lambda>r. if row_id r \<in> set (map row_id rows) then r\<lparr>sync_status := ''synced''\<rparr> else r)
                 (sync_queue w)"
    using idle sel ne s' r w1 send_succeeds_not_throws [of cfg e] by (simp add: dispatch_defs split: option.splits)
  show "\<not> syncInProgress (snd (performSync cfg e w))"
    using idle sel ne s' r w1 by (simp add: dispatch_defs split: option.splits)
qed

lemma performSync_no_dispatch:
  assumes "getPendingRecords cfg (select_err e) (batchSize cfg) w = Inr []"
  shows "cloud_calls (snd (performSync cfg e w)) = cloud_calls w"
    and "sync_queue (snd (performSync cfg e w)) = sync_queue w"
    and "isOnline (snd (performSync cfg e w)) = isOnline w"
    and "\<not> syncInProgress w \<Longrightarrow>
           performSync cfg e w =
             (Inr (JObj [(''success'', JBool True), (''message'', JStr ''No data to sync'')]), w)"
  using assms by (simp_all add: dispatch_defs)

lemma performSync_select_error:
  assumes "getPendingRecords cfg (select_err e) (batchSize cfg) w = Inl x"
  shows "cloud_calls (snd (performSync cfg e w)) = cloud_calls w"
    and "sync_queue (snd (performSync cfg e w)) = sync_queue w"
    and "isOnline (snd (performSync cfg e w)) = isOnline w"
  using assms by (simp_all add: dispatch_defs split: option.splits)

section \<open>The sample inputs, evaluated\<close>

lemma show_int_1000: "show_int 1000 = ''1000''"
  by code_simp

lemma two_pending_selection:
  "getPendingRecords cfg None 100 two_pending
     = (if 0 < retryAttempts cfg
        then Inr [sample_row 1 ''pending'' 0 7, sample_row 2 ''pending'' 0 8] else Inr [])"
  by (simp add: two_pending_def getPendingRecords_def constructor_def selectable_def sample_row_def sql_limit_def)

lemma sample_configs [simp]:
  "batchSize demo_config = 100" "retryAttempts demo_config = 3" "apiKey demo_config = ''demo_api_key''"
  "batchSize live_config = 100" "retryAttempts live_config = 3" "apiKey live_config = ''k1''"
  by (simp_all add: demo_config_def live_config_def CLOUD_CONFIG_def)

lemma two_pending_idle [simp]: "\<not> syncInProgress two_pending" "isOnline two_pending"
  "sync_queue two_pending = [sample_row 1 ''pending'' 0 7, sample_row 2 ''pending'' 0 8]"
  by (simp_all add: two_pending_def constructor_def)

section \<open>A failed send\<close>

text \<open>
  C7. When the result of the send is unsuccessful (its \<^verbatim>\<open>success\<close> is falsy) and the
  \<^verbatim>\<open>UPDATE\<close> of \<^verbatim>\<open>handleSyncFailure\<close> goes through, the table keeps its rows in
  place, every row that was in the batch has \<^verbatim>\<open>sync_status = 'failed'\<close> and its
  \<^verbatim>\<open>retry_count\<close> raised by exactly 1, and every row whose id is not in the batch is as
  it was.
\<close>

theorem failed_batch_marked_once:
  assumes "\<not> syncInProgress w"
    and "getPendingRecords cfg (select_err e) (batchSize cfg) w = Inr rows"
    and "rows \<noteq> []"
    and "\<not> send_succeeds cfg e"
    and "update_err e = None"
  shows "cloud_calls (snd (performSync cfg e w)) = cloud_calls w @ [the_batch e rows]
       \<and> length (sync_queue (snd (performSync cfg e w))) = length (sync_queue w)
       \<and> (\<forall>i < length (sync_queue w).
             (sync_queue w ! i \<in> set rows \<longrightarrow>
                sync_queue (snd (performSync cfg e w)) ! i =
                  (sync_queue w ! i)\<lparr>retry_count := retry_count (sync_queue w ! i) + 1,
                                     sync_status := ''failed''\<rparr>)
           \<and> (row_id (sync_queue w ! i) \<notin> row_id ` set rows \<longrightarrow>
                sync_queue (snd (performSync cfg e w)) ! i = sync_queue w ! i))"
proof -
  let ?mark = "\<lambda>r. if row_id r \<in> set (map row_id rows)
                   then r\<lparr>retry_count := retry_count r + 1, sync_status := ''failed''\<rparr> else r"
  have sent: "cloud_calls (snd (performSync cfg e w)) = cloud_calls w @ [the_batch e rows]"
    by (rule performSync_dispatch(1) [OF assms(1,2,3)])
  have table: "sync_queue (snd (performSync cfg e w)) = map ?mark (sync_queue w)"
    by (rule performSync_dispatch(3) [OF assms(1,2,3,5,4)])
  have "sync_queue (snd (performSync cfg e w)) ! i = ?mark (sync_queue w ! i)"
    if "i < length (sync_queue w)" for i
    using that by (simp add: table)
  then show ?thesis by (simp add: sent table)
qed

theorem failed_batch_marked_once_witness:
  "\<not> syncInProgress two_pending
   \<and> getPendingRecords demo_config (select_err (quiet_env\<lparr>rand_fail := True\<rparr>))
         (batchSize demo_config) two_pending
       = Inr [sample_row 1 ''pending'' 0 7, sample_row 2 ''pending'' 0 8]
   \<and> \<not> send_succeeds demo_config (quiet_env\<lparr>rand_fail := True\<rparr>)
   \<and> update_err (quiet_env\<lparr>rand_fail := True\<rparr>) = None
   \<and> sync_queue (snd (performSync demo_config (quiet_env\<lparr>rand_fail := True\<rparr>) two_pending)) ! 0
       = sample_row 1 ''failed'' 1 7
   \<and> sync_queue (snd (performSync demo_config (quiet_env\<lparr>rand_fail := True\<rparr>) two_pending)) ! 1
       = sample_row 2 ''failed'' 1 8"
proof -
  let ?e = "quiet_env\<lparr>rand_fail := True\<rparr>"
  let ?rows = "[sample_row 1 ''pending'' 0 7, sample_row 2 ''pending'' 0 8]"
  have h1: "\<not> syncInProgress two_pending" by simp
  have h2: "getPendingRecords demo_config (select_err ?e) (batchSize demo_config) two_pending = Inr ?rows"
    by (simp add: two_pending_selection quiet_env_def)
  have h3: "?rows \<noteq> []" by simp
  have h4: "\<not> send_succeeds demo_config ?e" by (simp add: send_succeeds_def)
  have h5: "update_err ?e = None" by (simp add: quiet_env_def)
  note t = failed_batch_marked_once [OF h1 h2 h3 h4 h5]
  from t have a: "\<forall>i<2. sync_queue two_pending ! i \<in> set ?rows \<longrightarrow>
       sync_queue (snd (performSync demo_config ?e two_pending)) ! i =
         (sync_queue two_pending ! i)\<lparr>retry_count := retry_count (sync_queue two_pending ! i) + 1,
                                     sync_status := ''failed''\<rparr>"
    by simp
  from a have "sync_queue (snd (performSync demo_config ?e two_pending)) ! 0 = sample_row 1 ''failed'' 1 7"
    by (simp add: sample_row_def)
  moreover from a have "sync_queue (snd (performSync demo_config ?e two_pending)) ! 1 = sample_row 2 ''failed'' 1 8"
    by (simp add: sample_row_def)
  ultimately show ?thesis using h1 h2 h4 h5 by simp
qed

section \<open>The offline breaker\<close>

text \<open>
  C4, as the claim states it, fails: the endpoint answers a batch with HTTP 400
  (\<^verbatim>\<open>error.response\<close> is set), and \<^verbatim>\<open>isOnline\<close>, true before the dispatch, is
  false after it.
\<close>

theorem http_rejection_trips_breaker:
  "isOnline two_pending
   \<and> \<not> isOnline (snd (performSync live_config
          (quiet_env\<lparr>axios_post := Failed (HttpError 400 ''bad payload'')\<rparr>) two_pending))"
  by (simp add: performSync_dispatch(2) [of two_pending live_config _ "[sample_row 1 ''pending'' 0 7, sample_row 2 ''pending'' 0 8]"]
        two_pending_selection quiet_env_def send_throws_def)

text \<open>
  C4, amended. A dispatch that sends a batch leaves \<^verbatim>\<open>isOnline\<close> true exactly when it
  was true and the send did not throw; the breaker trips on every thrown send, whatever
  was thrown. In particular, when the endpoint rejects the batch with an HTTP error
  response, \<^verbatim>\<open>isOnline\<close> is false afterwards and (the \<^verbatim>\<open>UPDATE\<close> going through) the
  rows of the batch are marked failed with their \<^verbatim>\<open>retry_count\<close> raised by 1.
\<close>

theorem breaker_trips_on_every_thrown_send:
  assumes "\<not> syncInProgress w"
    and "getPendingRecords cfg (select_err e) (batchSize cfg) w = Inr rows"
    and "rows \<noteq> []"
  shows "isOnline (snd (performSync cfg e w)) = (isOnline w \<and> \<not> send_throws cfg e)
       \<and> (apiKey cfg \<noteq> ''demo_api_key'' \<and> axios_post e = Failed (HttpError status msg)
            \<and> update_err e = None \<longrightarrow>
          \<not> isOnline (snd (performSync cfg e w))
          \<and> sync_queue (snd (performSync cfg e w)) =
              map (\<lambda>r. if row_id r \<in> row_id ` set rows
                        then r\<lparr>retry_count := retry_count r + 1, sync_status := ''failed''\<rparr> else r)
                  (sync_queue w))"
proof -
  have a: "isOnline (snd (performSync cfg e w)) = (isOnline w \<and> \<not> send_throws cfg e)"
    by (rule performSync_dispatch(2) [OF assms])
  have b: "sync_queue (snd (performSync cfg e w)) =
              map (\<lambda>r. if row_id r \<in> row_id ` set rows
                        then r\<lparr>retry_count := retry_count r + 1, sync_status := ''failed''\<rparr> else r)
                  (sync_queue w)"
    if "apiKey cfg \<noteq> ''demo_api_key''" "axios_post e = Failed (HttpError status msg)" "update_err e = None"
  proof -
    from that have "\<not> send_succeeds cfg e" by (simp add: send_succeeds_def)
    from performSync_dispatch(3) [OF assms that(3) this] show ?thesis by simp
  qed
  have c: "send_throws cfg e"
    if "apiKey cfg \<noteq> ''demo_api_key''" "axios_post e = Failed (HttpError status msg)"
    using that by (simp add: send_throws_def)
  from a b c show ?thesis by simp
qed

theorem breaker_trips_on_every_thrown_send_witness:
  "\<not> syncInProgress two_pending
   \<and> getPendingRecords live_config
        (select_err (quiet_env\<lparr>axios_post := Failed (HttpError 400 ''bad payload'')\<rparr>))
        (batchSize live_config) two_pending
       = Inr [sample_row 1 ''pending'' 0 7, sample_row 2 ''pending'' 0 8]
   \<and> apiKey live_config \<noteq> ''demo_api_key''
   \<and> update_err (quiet_env\<lparr>axios_post := Failed (HttpError 400 ''bad payload'')\<rparr>) = None
   \<and> \<not> isOnline (snd (performSync live_config
          (quiet_env\<lparr>axios_post := Failed (HttpError 400 ''bad payload'')\<rparr>) two_pending))
   \<and> sync_queue (snd (performSync live_config
          (quiet_env\<lparr>axios_post := Failed (HttpError 400 ''bad payload'')\<rparr>) two_pending))
       = [sample_row 1 ''failed'' 1 7, sample_row 2 ''failed'' 1 8]"
proof -
  let ?e = "quiet_env\<lparr>axios_post := Failed (HttpError 400 ''bad payload'')\<rparr>"
  let ?rows = "[sample_row 1 ''pending'' 0 7, sample_row 2 ''pending'' 0 8]"
  have h1: "\<not> syncInProgress two_pending" by simp
  have h2: "getPendingRecords live_config (select_err ?e) (batchSize live_config) two_pending = Inr ?rows"
    by (simp add: two_pending_selection quiet_env_def)
  have h3: "?rows \<noteq> []" by simp
  have h4: "apiKey live_config \<noteq> ''demo_api_key''" by simp
  have h5: "axios_post ?e = Failed (HttpError 400 ''bad payload'')" by simp
  have h6: "update_err ?e = None" by (simp add: quiet_env_def)
  from breaker_trips_on_every_thrown_send [OF h1 h2 h3, of 400 "''bad payload''"] h4 h5 h6
  have "\<not> isOnline (snd (performSync live_config ?e two_pending))
      \<and> sync_queue (snd (performSync live_config ?e two_pending))
          = [sample_row 1 ''failed'' 1 7, sample_row 2 ''failed'' 1 8]"
    by (simp add: sample_row_def send_throws_def)
  with h1 h2 h4 h6 show ?thesis by simp
qed

section \<open>The order within a batch\<close>

text \<open>
  C9, as the claim states it, fails: two events are enqueued, the second at an earlier
  \<^verbatim>\<open>CURRENT_TIMESTAMP\<close> than the first (the wall clock was set back in between); the
  batch sent lists record 2 before record 1.
\<close>

theorem batch_not_in_id_order:
  "map rec_id (records (last (cloud_calls (snd (performSync demo_config quiet_env
       (snd (addToSyncQueue (clock 5) sample_event
          (snd (addToSyncQueue (clock 10) sample_event (constructor [] [] []))))))))))
     = [2, 1]
   \<and> \<not> sorted_wrt (<)
        (map rec_id (records (last (cloud_calls (snd (performSync demo_config quiet_env
           (snd (addToSyncQueue (clock 5) sample_event
              (snd (addToSyncQueue (clock 10) sample_event (constructor [] [] [])))))))))))"
  by (simp add: dispatch_defs sendToCloud_def constructor_def getPendingRecords_def addToSyncQueue_def
        selectable_def sql_limit_def quiet_env_def clock_def sample_event_def JSON_stringify_def
        next_rowid_def js_or_def to_sync_record_def)

text \<open>
  C9, amended. Within every dispatch batch the selected records are in ascending
  \<^verbatim>\<open>created_at\<close> order (not strictly, and not by id), and the batch handed to the
  transport lists the records in that same order.
\<close>

theorem batch_sorted_by_created_at:
  assumes "\<not> syncInProgress w"
    and "getPendingRecords cfg (select_err e) (batchSize cfg) w = Inr rows"
    and "rows \<noteq> []"
  shows "sorted (map created_at rows)
       \<and> cloud_calls (snd (performSync cfg e w)) = cloud_calls w @ [the_batch e rows]
       \<and> map rec_id (records (the_batch e rows)) = map row_id rows"
  using sorted_selection [OF assms(2)] performSync_dispatch(1) [OF assms]
  by (simp add: the_batch_def to_sync_record_def comp_def)

theorem batch_sorted_by_created_at_witness:
  "\<not> syncInProgress two_pending
   \<and> getPendingRecords demo_config (select_err quiet_env) (batchSize demo_config) two_pending
       = Inr [sample_row 1 ''pending'' 0 7, sample_row 2 ''pending'' 0 8]
   \<and> sorted (map created_at [sample_row 1 ''pending'' 0 7, sample_row 2 ''pending'' 0 8])
   \<and> cloud_calls (snd (performSync demo_config quiet_env two_pending))
       = [the_batch quiet_env [sample_row 1 ''pending'' 0 7, sample_row 2 ''pending'' 0 8]]"
proof -
  let ?rows = "[sample_row 1 ''pending'' 0 7, sample_row 2 ''pending'' 0 8]"
  have h1: "\<not> syncInProgress two_pending" by simp
  have h2: "getPendingRecords demo_config (select_err quiet_env) (batchSize demo_config) two_pending = Inr ?rows"
    by (simp add: two_pending_selection quiet_env_def)
  have h3: "?rows \<noteq> []" by simp
  from batch_sorted_by_created_at [OF h1 h2 h3] h1 h2 show ?thesis
    by (simp add: two_pending_def constructor_def)
qed

section \<open>Dispatches in flight\<close>

lemma uninterrupted_is_performSync:
  "performSync_uninterrupted cfg e w =
     Finished (fst (performSync cfg e w)) (snd (performSync cfg e w))"
proof (cases "syncInProgress w")
  case True
  then show ?thesis
    by (simp add: performSync_uninterrupted_def performSync_start_def advance_def performSync_def)
next
  case idle: False
  obtain result w1 where s: "sendToCloud cfg e
       \<lparr> batchId = ''batch_'' @ show_int (t_batch e), batch_timestamp = t_payload e,
         records = map to_sync_record
           (sql_limit (batchSize cfg) (sort_key created_at (filter (selectable cfg) (sync_queue w)))) \<rparr>
       (w\<lparr>syncInProgress := True\<rparr>) = (result, w1)"
    by (cases "sendToCloud cfg e
       \<lparr> batchId = ''batch_'' @ show_int (t_batch e), batch_timestamp = t_payload e,
         records = map to_sync_record
           (sql_limit (batchSize cfg) (sort_key created_at (filter (selectable cfg) (sync_queue w)))) \<rparr>
       (w\<lparr>syncInProgress := True\<rparr>)")
  show ?thesis
    using idle s
    by (simp add: performSync_uninterrupted_def performSync_start_def advance_def performSync_resume_def
          performSync_catch_def dispatch_defs getPendingRecords_def
          split: option.splits)
qed

lemma logEvent_keeps:
  "syncInProgress (snd (logEvent qe d w)) = syncInProgress w"
  "isOnline (snd (logEvent qe d w)) = isOnline w"
  by (simp_all add: logEvent_def Let_def addToSyncQueue_def split: sum.splits option.splits)

lemma sendToCloud_pair:
  assumes "sendToCloud cfg e b w = (r, w')"
  shows "w' = (if send_throws cfg e
               then w\<lparr>cloud_calls := cloud_calls w @ [b], isOnline := False,
                      cooldown_timers := Suc (cooldown_timers w)\<rparr>
               else w\<lparr>cloud_calls := cloud_calls w @ [b]\<rparr>)"
    and "truthy (field r ''success'') = send_succeeds cfg e"
  using sendToCloud_state [of cfg e b w] sendToCloud_success [of cfg e b w] assms by simp_all

lemmas resume_defs =
  performSync_resume_def performSync_catch_def Let_def markRecordsSynced_def
  handleSyncFailure_def logSync_def

lemma resume_flag:
  assumes "syncInProgress w"
  shows "performSync_resume cfg e p w = Suspended p' w' \<Longrightarrow> syncInProgress w'"
    and "performSync_resume cfg e p w = Finished r w' \<Longrightarrow> \<not> syncInProgress w'"
  using assms
  by (auto simp: resume_defs dest!: sendToCloud_pair(1)
        split: pc.splits sum.splits option.splits if_splits prod.splits)

lemma resume_online:
  assumes "send_succeeds cfg e" and "isOnline w"
  shows "isOnline (state_of (performSync_resume cfg e p w))"
  using assms send_succeeds_not_throws [of cfg e]
  by (auto simp: resume_defs dest!: sendToCloud_pair(1)
        split: pc.splits sum.splits option.splits if_splits prod.splits)

lemma resume_result:
  assumes "\<forall>r. sent_result p = Some r \<longrightarrow> truthy (field r ''success'') = send_succeeds cfg e"
    and "performSync_resume cfg e p w = Suspended p' w'"
    and "sent_result p' = Some r'"
  shows "truthy (field r' ''success'') = send_succeeds cfg e"
  using assms
  by (auto simp: resume_defs dest!: sendToCloud_pair(2)
        split: pc.splits sum.splits option.splits if_splits prod.splits)

lemma exclusive_boot: "exclusive cfg (boot q l a)"
  by (simp add: exclusive_def boot_def constructor_def)

lemma call_exclusive:
  assumes "exclusive cfg s" and "isOnline (manager s)"
  shows "exclusive cfg (call_performSync cfg e s)"
proof (cases "syncInProgress (manager s)")
  case True
  then have "call_performSync cfg e s = s"
    by (simp add: call_performSync_def performSync_start_def)
  with assms(1) show ?thesis by simp
next
  case False
  with assms(1) have "dispatches s = []" by (simp add: exclusive_def)
  with False assms(2) show ?thesis
    by (simp add: call_performSync_def performSync_start_def exclusive_def)
qed

lemma settle_exclusive:
  assumes "exclusive cfg s"
  shows "exclusive cfg (settle cfg i s)"
proof (cases "i < length (dispatches s)")
  case False
  with assms show ?thesis by (simp add: settle_def)
next
  case True
  with assms have i: "i = 0" and one: "length (dispatches s) = 1" by (simp_all add: exclusive_def)
  then obtain e p where d: "dispatches s = [(e, p)]"
    by (cases "dispatches s") auto
  from assms d have flag: "syncInProgress (manager s)"
    and online: "send_succeeds cfg e \<longrightarrow> isOnline (manager s)"
    and res: "\<forall>r. sent_result p = Some r \<longrightarrow> truthy (field r ''success'') = send_succeeds cfg e"
    by (simp_all add: exclusive_def)
  show ?thesis
  proof (cases "performSync_resume cfg e p (manager s)")
    case (Suspended p' w')
    from resume_flag(1) [OF flag Suspended] have f': "syncInProgress w'" .
    from resume_online [of cfg e "manager s" p] online Suspended
    have o': "send_succeeds cfg e \<longrightarrow> isOnline w'" by auto
    from resume_result [OF res Suspended]
    have r': "\<forall>r. sent_result p' = Some r \<longrightarrow> truthy (field r ''success'') = send_succeeds cfg e"
      by simp
    from f' o' r' show ?thesis
      by (simp add: settle_def d i Suspended exclusive_def)
  next
    case (Finished r w')
    from resume_flag(2) [OF flag Finished] show ?thesis
      by (simp add: settle_def d i Finished exclusive_def)
  qed
qed

lemma exclusive_step:
  assumes "exclusive cfg s"
  shows "exclusive cfg (step cfg ev s)"
proof (cases ev)
  case (SyncDataEnqueue qe d)
  with assms show ?thesis by (simp add: exclusive_def addToSyncQueue_keeps)
next
  case (SyncDataKick e)
  with assms show ?thesis by (simp add: call_exclusive)
next
  case (LogEvent qe d)
  with assms show ?thesis by (simp add: exclusive_def logEvent_keeps)
next
  case (ScheduledTick now e)
  with assms show ?thesis by (simp add: call_exclusive)
next
  case (Settle i)
  with assms show ?thesis by (simp add: settle_exclusive)
next
  case CooldownTimer
  with assms show ?thesis by (auto simp: exclusive_def cooldown_fires_def)
qed

lemma exclusive_run:
  "exclusive cfg s \<Longrightarrow> exclusive cfg (run cfg evs s)"
  unfolding run_def by (induction evs arbitrary: s) (simp_all add: exclusive_step)


lemma performSync_guard:
  "syncInProgress w \<Longrightarrow>
     performSync cfg e w =
       (Inr (JObj [(''success'', JBool True), (''message'', JStr ''Sync already in progress'')]), w)"
  by (simp add: performSync_def)

text \<open>
  C2. In every state the module reaches from its start, by any sequence of events, at
  most one dispatch is in flight, and \<^verbatim>\<open>syncInProgress\<close> is set exactly while one is: a
  dispatch sets the flag before its first \<^verbatim>\<open>await\<close>, holds it at every \<^verbatim>\<open>await\<close> and
  clears it when it returns. While a dispatch is in flight, a call of \<^verbatim>\<open>performSync\<close>
  returns the report "Sync already in progress" and leaves the whole state as it was
  (no row selected or changed, nothing logged, \<^verbatim>\<open>sendToCloud\<close> not called), a scheduler
  tick and the continuation of \<^verbatim>\<open>syncData\<close> start no second dispatch, and \<^verbatim>\<open>syncData\<close>
  enqueues without calling the transport.
\<close>

theorem at_most_one_dispatch:
  assumes "s = run cfg evs (boot q l a)"
  shows "length (dispatches s) \<le> 1
       \<and> syncInProgress (manager s) = (dispatches s \<noteq> [])
       \<and> (dispatches s \<noteq> [] \<longrightarrow>
            performSync_start cfg e (manager s) =
              Finished (Inr (JObj [(''success'', JBool True),
                                   (''message'', JStr ''Sync already in progress'')])) (manager s)
          \<and> performSync cfg e (manager s) =
              (Inr (JObj [(''success'', JBool True),
                          (''message'', JStr ''Sync already in progress'')]), manager s)
          \<and> step cfg (ScheduledTick now e) s = s
          \<and> step cfg (SyncDataKick e) s = s
          \<and> snd (performScheduledSync cfg now e (manager s)) = manager s
          \<and> cloud_calls (snd (syncData cfg qe e d (manager s))) = cloud_calls (manager s))"
proof -
  have ex: "exclusive cfg s"
    unfolding assms by (rule exclusive_run) (rule exclusive_boot)
  then have one: "length (dispatches s) \<le> 1"
    and flag: "syncInProgress (manager s) = (dispatches s \<noteq> [])"
    by (simp_all add: exclusive_def)
  have busy: "performSync_start cfg e (manager s) =
              Finished (Inr (JObj [(''success'', JBool True),
                                   (''message'', JStr ''Sync already in progress'')])) (manager s)
          \<and> performSync cfg e (manager s) =
              (Inr (JObj [(''success'', JBool True),
                          (''message'', JStr ''Sync already in progress'')]), manager s)
          \<and> step cfg (ScheduledTick now e) s = s
          \<and> step cfg (SyncDataKick e) s = s
          \<and> snd (performScheduledSync cfg now e (manager s)) = manager s
          \<and> cloud_calls (snd (syncData cfg qe e d (manager s))) = cloud_calls (manager s)"
    if "dispatches s \<noteq> []"
  proof -
    from that flag have f: "syncInProgress (manager s)" by simp
    have g: "performSync cfg e (manager s) =
              (Inr (JObj [(''success'', JBool True),
                          (''message'', JStr ''Sync already in progress'')]), manager s)"
      using f by (rule performSync_guard)
    have st: "performSync_start cfg e (manager s) =
              Finished (Inr (JObj [(''success'', JBool True),
                                   (''message'', JStr ''Sync already in progress'')])) (manager s)"
      using f by (simp add: performSync_start_def)
    have c: "call_performSync cfg e s = s"
      by (simp add: call_performSync_def st)
    have tick: "step cfg (ScheduledTick now e) s = s" by (simp add: c)
    have kick: "step cfg (SyncDataKick e) s = s" by (simp add: f)
    have sched: "snd (performScheduledSync cfg now e (manager s)) = manager s"
      by (simp add: performScheduledSync_def g Let_def)
    obtain res w1 where enq: "addToSyncQueue qe d (manager s) = (res, w1)"
      by (cases "addToSyncQueue qe d (manager s)")
    with addToSyncQueue_keeps(1,3) [of qe d "manager s"] f
    have w1: "syncInProgress w1" "cloud_calls w1 = cloud_calls (manager s)" by simp_all
    have sd: "cloud_calls (snd (syncData cfg qe e d (manager s))) = cloud_calls (manager s)"
      by (cases res) (simp_all add: syncData_def enq w1)
    show ?thesis
      using st g tick kick sched sd by (intro conjI) assumption+
  qed
  from one flag busy show ?thesis by simp
qed

theorem at_most_one_dispatch_witness:
  "dispatches (run demo_config
       [SyncDataEnqueue (clock 7) sample_event, ScheduledTick 5000 quiet_env,
        ScheduledTick 9000 quiet_env, SyncDataKick quiet_env] (boot [] [] []))
     = [(quiet_env, AwaitSelect)]
   \<and> syncInProgress (manager (run demo_config
       [SyncDataEnqueue (clock 7) sample_event, ScheduledTick 5000 quiet_env,
        ScheduledTick 9000 quiet_env, SyncDataKick quiet_env] (boot [] [] [])))
   \<and> step demo_config (ScheduledTick 9999 quiet_env) (run demo_config
       [SyncDataEnqueue (clock 7) sample_event, ScheduledTick 5000 quiet_env,
        ScheduledTick 9000 quiet_env, SyncDataKick quiet_env] (boot [] [] []))
     = run demo_config
       [SyncDataEnqueue (clock 7) sample_event, ScheduledTick 5000 quiet_env,
        ScheduledTick 9000 quiet_env, SyncDataKick quiet_env] (boot [] [] [])"
proof -
  let ?s = "run demo_config
       [SyncDataEnqueue (clock 7) sample_event, ScheduledTick 5000 quiet_env,
        ScheduledTick 9000 quiet_env, SyncDataKick quiet_env] (boot [] [] [])"
  have d: "dispatches ?s = [(quiet_env, AwaitSelect)]"
    by (simp add: run_def boot_def constructor_def call_performSync_def performSync_start_def
          addToSyncQueue_def JSON_stringify_def sample_event_def clock_def Let_def
          demo_config_def CLOUD_CONFIG_def)
  from at_most_one_dispatch [of ?s demo_config _ "[]" "[]" "[]" quiet_env 9999 "clock 9" sample_event,
         OF refl] d
  show ?thesis by simp
qed




section \<open>Counting what a successful dispatch leaves\<close>

lemma synced_not_selectable [simp]: "\<not> selectable cfg (r\<lparr>sync_status := ''synced''\<rparr>)"
  by (simp add: selectable_def)

lemma id_in_rows:
  assumes "distinct (map row_id q)" and "set rows \<subseteq> set q" and "r \<in> set q"
  shows "(row_id r \<in> row_id ` set rows) = (r \<in> set rows)"
proof
  assume "row_id r \<in> row_id ` set rows"
  then obtain r' where r': "r' \<in> set rows" "row_id r = row_id r'" by auto
  from assms(1) have "inj_on row_id (set q)" by (simp add: distinct_map)
  with r' assms(2,3) have "r = r'" by (auto dest: inj_onD)
  with r' show "r \<in> set rows" by simp
qed simp

lemma filter_after_sync:
  assumes d: "distinct (map row_id q)" and sub: "set rows \<subseteq> set q"
  shows "filter (selectable cfg)
           (map (\<lambda>r. if row_id r \<in> row_id ` set rows then r\<lparr>sync_status := ''synced''\<rparr> else r) q)
         = filter (\<lambda>r. r \<notin> set rows) (filter (selectable cfg) q)"
proof -
  let ?f = "\<lambda>r. if row_id r \<in> row_id ` set rows then r\<lparr>sync_status := ''synced''\<rparr> else r"
  have a: "filter (selectable cfg \<circ> ?f) q = filter (\<lambda>r. selectable cfg r \<and> r \<notin> set rows) q"
    by (rule filter_cong) (auto simp: id_in_rows [OF d sub])
  have b: "map ?f (filter (\<lambda>r. selectable cfg r \<and> r \<notin> set rows) q)
             = filter (\<lambda>r. selectable cfg r \<and> r \<notin> set rows) q"
    by (rule map_idI) (auto simp: id_in_rows [OF d sub])
  have "filter (selectable cfg) (map ?f q) = map ?f (filter (selectable cfg \<circ> ?f) q)"
    by (simp add: filter_map)
  also have "\<dots> = filter (\<lambda>r. selectable cfg r \<and> r \<notin> set rows) q"
    by (simp only: a b)
  also have "\<dots> = filter (\<lambda>r. r \<notin> set rows) (filter (selectable cfg) q)"
    by (simp add: conj_commute)
  finally show ?thesis .
qed

lemma length_filter_out:
  assumes "distinct xs" and "distinct rows" and "set rows \<subseteq> set xs"
  shows "length (filter (\<lambda>r. r \<notin> set rows) xs) = length xs - length rows"
proof -
  have "length (filter (\<lambda>r. r \<in> set rows) xs) = card ({r. r \<in> set rows} \<inter> set xs)"
    using assms(1) by (rule distinct_length_filter)
  also from assms(3) have "{r. r \<in> set rows} \<inter> set xs = set rows" by auto
  also from assms(2) have "card (set rows) = length rows" by (rule distinct_card)
  finally have "length (filter (\<lambda>r. r \<in> set rows) xs) = length rows" .
  with sum_length_filter_compl [of "\<lambda>r. r \<in> set rows" xs] show ?thesis by simp
qed

lemma length_sql_limit_min:
  "0 \<le> n \<Longrightarrow> length (sql_limit n xs) = min (nat n) (length xs)"
  by (simp add: sql_limit_def min_def)

lemma distinct_sql_limit: "distinct xs \<Longrightarrow> distinct (sql_limit n xs)"
  by (simp add: sql_limit_def)

lemma distinct_rows: "distinct (map row_id q) \<Longrightarrow> distinct q"
  by (simp add: distinct_map)

lemma successful_dispatch_step:
  assumes idle: "\<not> syncInProgress w"
    and env: "select_err e = None" "update_err e = None" "send_succeeds cfg e"
    and d: "distinct (map row_id (sync_queue w))"
    and b: "0 < batchSize cfg"
    and n: "0 < length (filter (selectable cfg) (sync_queue w))"
  shows "map (\<lambda>b. length (records b)) (cloud_calls (snd (performSync cfg e w)))
           = map (\<lambda>b. length (records b)) (cloud_calls w)
             @ [min (nat (batchSize cfg)) (length (filter (selectable cfg) (sync_queue w)))]"
    and "length (filter (selectable cfg) (sync_queue (snd (performSync cfg e w))))
           = length (filter (selectable cfg) (sync_queue w)) - nat (batchSize cfg)"
    and "\<not> syncInProgress (snd (performSync cfg e w))"
    and "distinct (map row_id (sync_queue (snd (performSync cfg e w))))"
proof -
  let ?el = "filter (selectable cfg) (sync_queue w)"
  let ?rows = "sql_limit (batchSize cfg) (sort_key created_at ?el)"
  have sel: "getPendingRecords cfg (select_err e) (batchSize cfg) w = Inr ?rows"
    by (simp add: getPendingRecords_def env(1))
  from b have len: "length ?rows = min (nat (batchSize cfg)) (length ?el)"
    by (simp add: length_sql_limit_min)
  with b n have ne: "?rows \<noteq> []" by (auto simp: min_def split: if_splits)
  have sub: "set ?rows \<subseteq> set ?el" using set_sql_limit [of "batchSize cfg" "sort_key created_at ?el"] by simp
  then have sub': "set ?rows \<subseteq> set (sync_queue w)" by auto
  have dq: "distinct (sync_queue w)" using d by (rule distinct_rows)
  then have drows: "distinct ?rows" by (simp add: distinct_sql_limit)
  have q: "sync_queue (snd (performSync cfg e w)) =
             map (\<lambda>r. if row_id r \<in> row_id ` set ?rows then r\<lparr>sync_status := ''synced''\<rparr> else r)
                 (sync_queue w)"
    using performSync_dispatch(4) [OF idle sel ne env(2) env(3)] by simp
  show "map (\<lambda>b. length (records b)) (cloud_calls (snd (performSync cfg e w)))
           = map (\<lambda>b. length (records b)) (cloud_calls w) @ [min (nat (batchSize cfg)) (length ?el)]"
    using performSync_dispatch(1) [OF idle sel ne] len by (simp add: the_batch_def)
  have "length (filter (selectable cfg) (sync_queue (snd (performSync cfg e w))))
          = length (filter (\<lambda>r. r \<notin> set ?rows) ?el)"
    unfolding q by (simp only: filter_after_sync [OF d sub'])
  also have "\<dots> = length ?el - length ?rows"
    using dq drows sub by (intro length_filter_out) simp_all
  also have "\<dots> = length ?el - nat (batchSize cfg)"
    unfolding len by (simp add: min_def)
  finally show "length (filter (selectable cfg) (sync_queue (snd (performSync cfg e w))))
           = length ?el - nat (batchSize cfg)" .
  show "\<not> syncInProgress (snd (performSync cfg e w))"
    by (rule performSync_dispatch(5) [OF idle sel ne])
  have "map row_id (sync_queue (snd (performSync cfg e w))) = map row_id (sync_queue w)"
    unfolding q by (simp add: comp_def if_distrib cong: if_cong)
  with d show "distinct (map row_id (sync_queue (snd (performSync cfg e w))))" by simp
qed

lemma new_calls_bounded:
  assumes "0 \<le> batchSize cfg"
    and "b \<in> set (drop (length (cloud_calls w)) (cloud_calls (snd (performSync cfg e w))))"
  shows "int (length (records b)) \<le> batchSize cfg"
proof (cases "syncInProgress w")
  case True
  with assms(2) show ?thesis by (simp add: performSync_def)
next
  case idle: False
  show ?thesis
  proof (cases "getPendingRecords cfg (select_err e) (batchSize cfg) w")
    case (Inl x)
    with assms(2) show ?thesis by (simp add: performSync_select_error(1))
  next
    case (Inr rows)
    show ?thesis
    proof (cases "rows = []")
      case True
      with Inr assms(2) show ?thesis by (simp add: performSync_no_dispatch(1))
    next
      case False
      from assms(2) have "b = the_batch e rows"
        by (simp add: performSync_dispatch(1) [OF idle Inr False])
      then have "length (records b) = length rows" by (simp add: the_batch_def)
      with length_sql_limit [OF assms(1)] getPendingRecords_rows [OF Inr] show ?thesis by simp
    qed
  qed
qed


text \<open>
  C8. The batch handed to the transport by a dispatch never holds more than
  \<^verbatim>\<open>batchSize\<close> records (for a batch size that is not negative). And with
  \<^verbatim>\<open>batchSize = 2\<close> and five selectable records in a table whose ids are distinct,
  three dispatches whose sends succeed and whose statements go through send batches of
  2, 2 and 1 records, after which no selectable record is left and a fourth dispatch
  reports "No data to sync".
\<close>

theorem batch_never_exceeds_batchSize:
  "(0 \<le> batchSize cfg \<longrightarrow>
      (\<forall>b \<in> set (drop (length (cloud_calls w)) (cloud_calls (snd (performSync cfg e w)))).
          int (length (records b)) \<le> batchSize cfg))
   \<and> (batchSize cfg = 2 \<and> length (filter (selectable cfg) (sync_queue w)) = 5
        \<and> distinct (map row_id (sync_queue w)) \<and> \<not> syncInProgress w
        \<and> (\<forall>x \<in> {e1, e2, e3}. select_err x = None \<and> update_err x = None \<and> send_succeeds cfg x)
        \<and> select_err e4 = None \<longrightarrow>
      map (\<lambda>b. length (records b))
          (cloud_calls (snd (performSync cfg e3 (snd (performSync cfg e2 (snd (performSync cfg e1 w)))))))
        = map (\<lambda>b. length (records b)) (cloud_calls w) @ [2, 2, 1]
      \<and> filter (selectable cfg)
           (sync_queue (snd (performSync cfg e3 (snd (performSync cfg e2 (snd (performSync cfg e1 w)))))))
          = []
      \<and> performSync cfg e4 (snd (performSync cfg e3 (snd (performSync cfg e2 (snd (performSync cfg e1 w))))))
          = (Inr (JObj [(''success'', JBool True), (''message'', JStr ''No data to sync'')]),
             snd (performSync cfg e3 (snd (performSync cfg e2 (snd (performSync cfg e1 w)))))))"
proof -
  have drain: "map (\<lambda>b. length (records b))
          (cloud_calls (snd (performSync cfg e3 (snd (performSync cfg e2 (snd (performSync cfg e1 w)))))))
        = map (\<lambda>b. length (records b)) (cloud_calls w) @ [2, 2, 1]
      \<and> filter (selectable cfg)
           (sync_queue (snd (performSync cfg e3 (snd (performSync cfg e2 (snd (performSync cfg e1 w)))))))
          = []
      \<and> performSync cfg e4 (snd (performSync cfg e3 (snd (performSync cfg e2 (snd (performSync cfg e1 w))))))
          = (Inr (JObj [(''success'', JBool True), (''message'', JStr ''No data to sync'')]),
             snd (performSync cfg e3 (snd (performSync cfg e2 (snd (performSync cfg e1 w))))))"
    if b: "batchSize cfg = 2" and n: "length (filter (selectable cfg) (sync_queue w)) = 5"
      and d: "distinct (map row_id (sync_queue w))" and idle: "\<not> syncInProgress w"
      and e1: "select_err e1 = None" "update_err e1 = None" "send_succeeds cfg e1"
      and e2: "select_err e2 = None" "update_err e2 = None" "send_succeeds cfg e2"
      and e3: "select_err e3 = None" "update_err e3 = None" "send_succeeds cfg e3"
      and e4: "select_err e4 = None"
  proof -
    let ?w1 = "snd (performSync cfg e1 w)"
    let ?w2 = "snd (performSync cfg e2 ?w1)"
    let ?w3 = "snd (performSync cfg e3 ?w2)"
    from b have b': "0 < batchSize cfg" by simp
    from n have n0: "0 < length (filter (selectable cfg) (sync_queue w))" by simp
    note s1 = successful_dispatch_step [OF idle e1 d b' n0]
    from s1(2) b n have n1: "length (filter (selectable cfg) (sync_queue ?w1)) = 3" by simp
    then have n1': "0 < length (filter (selectable cfg) (sync_queue ?w1))" by simp
    note s2 = successful_dispatch_step [OF s1(3) e2 s1(4) b' n1']
    from s2(2) b n1 have n2: "length (filter (selectable cfg) (sync_queue ?w2)) = 1" by simp
    then have n2': "0 < length (filter (selectable cfg) (sync_queue ?w2))" by simp
    note s3 = successful_dispatch_step [OF s2(3) e3 s2(4) b' n2']
    from s3(2) b n2 have n3: "filter (selectable cfg) (sync_queue ?w3) = []" by simp
    have calls: "map (\<lambda>b. length (records b)) (cloud_calls ?w3)
                   = map (\<lambda>b. length (records b)) (cloud_calls w) @ [2, 2, 1]"
      by (simp add: s3(1) s2(1) s1(1) b n n1 n2)
    have "getPendingRecords cfg (select_err e4) (batchSize cfg) ?w3 = Inr []"
      by (simp add: getPendingRecords_def e4 n3 sql_limit_def)
    from performSync_no_dispatch(4) [OF this s3(3)] calls n3 show ?thesis by simp
  qed
  have bound: "\<forall>b \<in> set (drop (length (cloud_calls w)) (cloud_calls (snd (performSync cfg e w)))).
          int (length (records b)) \<le> batchSize cfg" if "0 \<le> batchSize cfg"
    using new_calls_bounded [OF that] by simp
  from bound drain show ?thesis by simp
qed

lemma five_pending_facts:
  "length (filter (selectable (demo_config\<lparr>batchSize := 2\<rparr>)) (sync_queue five_pending)) = 5"
  "distinct (map row_id (sync_queue five_pending))"
  "\<not> syncInProgress five_pending"
  "cloud_calls five_pending = []"
  by (simp_all add: five_pending_def constructor_def selectable_def sample_row_def)

lemma quiet_env_facts:
  "select_err quiet_env = None" "update_err quiet_env = None"
  "send_succeeds demo_config quiet_env" "send_succeeds (demo_config\<lparr>batchSize := 2\<rparr>) quiet_env"
  by (simp_all add: quiet_env_def send_succeeds_def)

theorem batch_never_exceeds_batchSize_witness:
  "batchSize (demo_config\<lparr>batchSize := 2\<rparr>) = 2
   \<and> length (filter (selectable (demo_config\<lparr>batchSize := 2\<rparr>)) (sync_queue five_pending)) = 5
   \<and> distinct (map row_id (sync_queue five_pending)) \<and> \<not> syncInProgress five_pending
   \<and> select_err quiet_env = None \<and> update_err quiet_env = None
   \<and> send_succeeds (demo_config\<lparr>batchSize := 2\<rparr>) quiet_env
   \<and> map (\<lambda>b. length (records b))
         (cloud_calls (snd (performSync (demo_config\<lparr>batchSize := 2\<rparr>) quiet_env
            (snd (performSync (demo_config\<lparr>batchSize := 2\<rparr>) quiet_env
               (snd (performSync (demo_config\<lparr>batchSize := 2\<rparr>) quiet_env five_pending)))))))
       = [2, 2, 1]"
  using batch_never_exceeds_batchSize
          [of "demo_config\<lparr>batchSize := 2\<rparr>" five_pending quiet_env quiet_env quiet_env quiet_env quiet_env]
  by (simp add: five_pending_facts quiet_env_facts)

section \<open>Records whose send failed\<close>

lemma only_pending_selected:
  assumes "getPendingRecords cfg err limit w = Inr rows" and "r \<in> set rows"
  shows "sync_status r = ''pending''"
  using getPendingRecords_selectable [OF assms] by (simp add: selectable_def)

lemma one_failed_state:
  "one_failed =
     \<lparr> isOnline = False, syncInProgress = False, lastSyncTime = 1201, pendingData = [],
       sync_queue = [\<lparr> row_id = 1, user_id = JStr ''u1'', event_type = JStr ''app_launch'',
                       data = sample_event, timestamp = 7000, sync_status = ''failed'',
                       retry_count = 1, created_at = 7 \<rparr>],
       sync_logs = [\<lparr> batch_id = ''batch_1000'', records_synced = 0, success = 0,
                      error_message = JStr ''Simulated cloud sync failure'', sync_duration = 200 \<rparr>],
       user_activity = [], cooldown_timers = 1,
       cloud_calls = [\<lparr> batchId = ''batch_1000'', batch_timestamp = 1001,
                        records = [\<lparr> rec_id = 1, rec_userId = JStr ''u1'',
                                     rec_eventType = JStr ''app_launch'', rec_data = sample_event,
                                     rec_timestamp = 7000 \<rparr>] \<rparr>] \<rparr>"
  by (simp add: one_failed_def dispatch_defs sendToCloud_def sendToCloud_catch_def constructor_def
        getPendingRecords_def addToSyncQueue_def selectable_def sql_limit_def quiet_env_def clock_def
        sample_event_def JSON_stringify_def JSON_parse_def next_rowid_def js_or_def to_sync_record_def
        show_int_1000)

text \<open>
  C1. The code at the failing input: one event is enqueued and dispatched, and the
  send fails. The record is then \<^verbatim>\<open>failed\<close> with \<^verbatim>\<open>retry_count = 1\<close>, below
  \<^verbatim>\<open>retryAttempts = 3\<close>; the next selection is empty all the same, and the next
  dispatch, the cooldown over, reports "No data to sync".
\<close>

theorem failed_record_never_selected_again:
  "map sync_status (sync_queue one_failed) = [''failed'']
   \<and> map retry_count (sync_queue one_failed) = [1]
   \<and> retryAttempts demo_config = 3
   \<and> getPendingRecords demo_config None (batchSize demo_config) one_failed = Inr []
   \<and> performSync demo_config quiet_env (cooldown_fires one_failed)
       = (Inr (JObj [(''success'', JBool True), (''message'', JStr ''No data to sync'')]),
          cooldown_fires one_failed)"
  by (simp add: one_failed_state getPendingRecords_def selectable_def sql_limit_def cooldown_fires_def
        dispatch_defs quiet_env_def)

section \<open>Enqueueing\<close>

lemma fold_max_ge: "a \<le> fold max ids (a::int)"
proof (induction ids arbitrary: a)
  case Nil
  show ?case by simp
next
  case (Cons i ids)
  have "a \<le> max i a" by simp
  also have "\<dots> \<le> fold max ids (max i a)" by (rule Cons.IH)
  finally show ?case by simp
qed

lemma fold_max_upper: "i \<in> set ids \<Longrightarrow> i \<le> fold max ids (a::int)"
proof (induction ids arbitrary: a)
  case Nil
  then show ?case by simp
next
  case (Cons j ids)
  show ?case
  proof (cases "i = j")
    case True
    have "i \<le> max j a" using True by simp
    also have "\<dots> \<le> fold max ids (max j a)" by (rule fold_max_ge)
    finally show ?thesis by simp
  next
    case False
    with Cons.prems have "i \<in> set ids" by simp
    then show ?thesis by (simp add: Cons.IH)
  qed
qed

lemma next_rowid_fresh: "next_rowid ids \<notin> set ids"
proof
  assume "next_rowid ids \<in> set ids"
  then have "next_rowid ids \<le> fold max ids 0" by (rule fold_max_upper)
  then show False by (simp add: next_rowid_def)
qed

lemma addToSyncQueue_ids_distinct:
  assumes "distinct (map row_id (sync_queue w))"
  shows "distinct (map row_id (sync_queue (snd (addToSyncQueue e d w))))"
  using assms next_rowid_fresh [of "map row_id (sync_queue w)"]
  by (simp add: addToSyncQueue_def Let_def split: sum.splits option.splits)

lemma addToSyncQueue_rejected:
  "fst (addToSyncQueue e d w) = Inl x \<Longrightarrow> snd (addToSyncQueue e d w) = w"
  by (simp add: addToSyncQueue_def Let_def split: sum.splits option.splits)

lemma addToSyncQueue_accepted:
  assumes "\<not> has_bigint d" and "get_prop d ''userId'' = Inr uid" and "get_prop d ''type'' = Inr ty"
    and "queue_err e = None"
  shows "addToSyncQueue e d w =
           (Inr (next_rowid (map row_id (sync_queue w))),
            w\<lparr>sync_queue := sync_queue w @
                 [\<lparr> row_id = next_rowid (map row_id (sync_queue w)),
                    user_id = (if truthy uid then uid else JStr ''system''),
                    event_type = (if truthy ty then ty else JStr ''activity''),
                    data = d, timestamp = date_now e, sync_status = ''pending'',
                    retry_count = 0, created_at = current_timestamp e \<rparr>]\<rparr>)"
  using assms by (simp add: addToSyncQueue_def JSON_stringify_def Let_def js_or_def)

text \<open>
  C6, as the claim states it, fails: an event whose \<^verbatim>\<open>type\<close> is the empty string is
  not rejected; it is stored as a pending record of kind \<^verbatim>\<open>activity\<close>.
\<close>

theorem empty_kind_is_enqueued:
  "addToSyncQueue (clock 7) (JObj [(''type'', JStr [])]) (constructor [] [] [])
     = (Inr 1,
        (constructor [] [] [])
          \<lparr>sync_queue :=
             [\<lparr> row_id = 1, user_id = JStr ''system'', event_type = JStr ''activity'',
                data = JObj [(''type'', JStr [])], timestamp = 7000, sync_status = ''pending'',
                retry_count = 0, created_at = 7 \<rparr>]\<rparr>)"
  by (simp add: addToSyncQueue_def constructor_def clock_def JSON_stringify_def next_rowid_def js_or_def)

text \<open>
  C6, amended. Every enqueue that is rejected leaves the state as it was. An event that
  cannot be serialized is rejected, with the TypeError of \<^verbatim>\<open>JSON.stringify\<close>, before
  anything is written. An event whose kind is empty is not rejected: it is stored with
  kind \<^verbatim>\<open>activity\<close>.
\<close>

theorem enqueue_rejects_before_writing:
  "(fst (addToSyncQueue e d w) = Inl x \<longrightarrow> snd (addToSyncQueue e d w) = w)
   \<and> (has_bigint d \<longrightarrow>
        addToSyncQueue e d w = (Inl (TypeError ''Do not know how to serialize a BigInt''), w))
   \<and> (\<not> has_bigint d \<and> get_prop d ''userId'' = Inr uid \<and> get_prop d ''type'' = Inr (JStr [])
        \<and> queue_err e = None \<longrightarrow>
        fst (addToSyncQueue e d w) = Inr (next_rowid (map row_id (sync_queue w)))
        \<and> map event_type (sync_queue (snd (addToSyncQueue e d w)))
            = map event_type (sync_queue w) @ [JStr ''activity''])"
proof -
  have a: "fst (addToSyncQueue e d w) = Inl x \<longrightarrow> snd (addToSyncQueue e d w) = w"
    by (simp add: addToSyncQueue_rejected)
  have b: "has_bigint d \<longrightarrow>
        addToSyncQueue e d w = (Inl (TypeError ''Do not know how to serialize a BigInt''), w)"
    by (simp add: addToSyncQueue_def JSON_stringify_def)
  have c: "fst (addToSyncQueue e d w) = Inr (next_rowid (map row_id (sync_queue w)))
        \<and> map event_type (sync_queue (snd (addToSyncQueue e d w)))
            = map event_type (sync_queue w) @ [JStr ''activity'']"
    if "\<not> has_bigint d" "get_prop d ''userId'' = Inr uid" "get_prop d ''type'' = Inr (JStr [])"
       "queue_err e = None"
    by (simp add: addToSyncQueue_accepted [OF that])
  from a b c show ?thesis by simp
qed

theorem enqueue_rejects_before_writing_witness:
  "has_bigint (JObj [(''type'', JStr ''score''), (''points'', JBigInt 9)])
   \<and> addToSyncQueue (clock 7) (JObj [(''type'', JStr ''score''), (''points'', JBigInt 9)]) two_pending
       = (Inl (TypeError ''Do not know how to serialize a BigInt''), two_pending)
   \<and> \<not> has_bigint (JObj [(''type'', JStr [])])
   \<and> get_prop (JObj [(''type'', JStr [])]) ''userId'' = Inr JUndefined
   \<and> get_prop (JObj [(''type'', JStr [])]) ''type'' = Inr (JStr [])
   \<and> queue_err (clock 7) = None
   \<and> fst (addToSyncQueue (clock 7) (JObj [(''type'', JStr [])]) two_pending) = Inr 3
   \<and> map event_type (sync_queue (snd (addToSyncQueue (clock 7) (JObj [(''type'', JStr [])]) two_pending)))
       = [JStr ''activity'', JStr ''activity'', JStr ''activity'']"
  using enqueue_rejects_before_writing
          [of "clock 7" "JObj [(''type'', JStr ''score''), (''points'', JBigInt 9)]" two_pending
              "TypeError ''Do not know how to serialize a BigInt''" JUndefined]
        enqueue_rejects_before_writing
          [of "clock 7" "JObj [(''type'', JStr [])]" two_pending
              "TypeError ''Do not know how to serialize a BigInt''" JUndefined]
  by (simp add: clock_def next_rowid_def sample_row_def)

lemma get_prop_total: "get_prop d k = Inr v \<Longrightarrow> \<exists>v'. get_prop d k' = Inr v'"
  by (cases d) simp_all








end
